theory Spec2Isabelle
  imports Complex_Main "HOL-Library.Word"
begin

unbundle bit_operations_syntax

section \<open>Data model\<close>

text \<open>
  The program of \<^verbatim>\<open>src/main.py\<close> is a composition of Earth Engine operations on
  images and image collections. An image is an ordered list of named bands over a common
  grid, with the property \<^verbatim>\<open>system:time_start\<close>, a footprint and a projection. A band
  gives every pixel a sample or no sample: \<open>None\<close> is a masked (nodata) pixel. The
  bands of the source archive \<^verbatim>\<open>COPERNICUS/S2_SR\<close> hold unsigned 16-bit digital
  numbers; after the scaling of line 53 the samples are numbers, taken here as reals
  (rounding of the service's floating point arithmetic is not part of the model).
  Pixels are ground locations: the resampling of a reprojection is not modelled.
\<close>

type_synonym pixel = "int \<times> int"

type_synonym 'a band = "pixel \<Rightarrow> 'a option"

type_synonym rect = "real \<times> real \<times> real \<times> real"

record 'a image =
  bands :: "(string \<times> 'a band) list"
  time_start :: "int option"
  footprint :: "rect option"
  projection :: "(string \<times> nat) option"

datatype error = MissingBandError

type_synonym dn = "16 word"

text \<open>Calendar dates at midnight UTC, as \<^verbatim>\<open>ee.Date('YYYY-MM-DD')\<close> builds them.\<close>

record date =
  year :: int
  month :: int
  day :: int

section \<open>Dates\<close>

definition is_leap :: "int \<Rightarrow> bool" where
  "is_leap y = (if y mod 100 = 0 then y mod 400 = 0 else y mod 4 = 0)"

definition days_in_month :: "int \<Rightarrow> int \<Rightarrow> int" where
  "days_in_month y m =
     (if m = 2 then (if is_leap y then 29 else 28)
      else if m = 4 \<or> m = 6 \<or> m = 9 \<or> m = 11 then 30 else 31)"

text \<open>Days between 1970-01-01 and the given civil date (proleptic Gregorian calendar).\<close>

definition days_from_civil :: "int \<Rightarrow> int \<Rightarrow> int \<Rightarrow> int" where
  "days_from_civil y m d =
     (let y' = (if m \<le> 2 then y - 1 else y);
          era = y' div 400;
          yoe = y' - era * 400;
          doy = (153 * (if m > 2 then m - 3 else m + 9) + 2) div 5 + d - 1;
          doe = yoe * 365 + yoe div 4 - yoe div 100 + doy
      in era * 146097 + doe - 719468)"

text \<open>\<^verbatim>\<open>ee.Date.millis()\<close>: milliseconds since the epoch.\<close>

definition millis :: "date \<Rightarrow> int" where
  "millis d = days_from_civil (year d) (month d) (day d) * 86400000"

text \<open>
  \<^verbatim>\<open>ee.Date.advance(n, 'month')\<close>: calendar months are added, and the day of the month
  is cut to the length of the month reached.
\<close>

definition advance_month :: "date \<Rightarrow> int \<Rightarrow> date" where
  "advance_month d n =
     (let t = year d * 12 + (month d - 1) + n;
          y = t div 12;
          m = t mod 12 + 1
      in \<lparr>year = y, month = m, day = min (day d) (days_in_month y m)\<rparr>)"

section \<open>Earth Engine operations on images\<close>

definition bandNames :: "'a image \<Rightarrow> string list" where
  "bandNames img = map fst (bands img)"

text \<open>The sample of a named band at a pixel; an image without that band has no sample.\<close>

definition sample :: "string \<Rightarrow> 'a image \<Rightarrow> pixel \<Rightarrow> 'a option" where
  "sample n img p = (case map_of (bands img) n of None \<Rightarrow> None | Some b \<Rightarrow> b p)"

text \<open>
  \<^verbatim>\<open>Image.select(name)\<close>: the image reduced to the named band. Selecting a band
  the image does not have is an error (Earth Engine reports that the pattern did not match
  any bands).
\<close>

definition select :: "string \<Rightarrow> 'a image \<Rightarrow> error + 'a image" where
  "select n img =
     (case map_of (bands img) n of
        None \<Rightarrow> Inl MissingBandError
      | Some b \<Rightarrow> Inr (img\<lparr>bands := [(n, b)]\<rparr>))"

text \<open>
  \<^verbatim>\<open>Image.select("B.*")\<close>: the bands whose whole name matches the regular expression,
  that is the names that start with the letter B; an error when there is none.
\<close>

definition matches_B :: "string \<Rightarrow> bool" where
  "matches_B n = (case n of [] \<Rightarrow> False | c # _ \<Rightarrow> c = CHR ''B'')"

definition select_B :: "'a image \<Rightarrow> error + 'a image" where
  "select_B img =
     (let bs = filter (\<lambda>(n, b). matches_B n) (bands img)
      in if bs = [] then Inl MissingBandError else Inr (img\<lparr>bands := bs\<rparr>))"

text \<open>Pixelwise operations act on every band and keep masked pixels masked.\<close>

definition map_bands :: "('a \<Rightarrow> 'b) \<Rightarrow> 'a image \<Rightarrow> 'b image" where
  "map_bands f img =
     \<lparr>bands = map (\<lambda>(n, b). (n, \<lambda>p. map_option f (b p))) (bands img),
      time_start = time_start img, footprint = footprint img,
      projection = projection img\<rparr>"

definition bitwiseAnd :: "dn image \<Rightarrow> dn \<Rightarrow> dn image" where
  "bitwiseAnd img c = map_bands (\<lambda>v. v AND c) img"

definition eq_const :: "dn image \<Rightarrow> dn \<Rightarrow> dn image" where
  "eq_const img c = map_bands (\<lambda>v. if v = c then 1 else 0) img"

text \<open>
  \<^verbatim>\<open>Image.And\<close> and \<^verbatim>\<open>Image.Or\<close> pair the bands of their two operands in order: 1
  where both (one of the) samples are non-zero, 0 otherwise, masked where an operand is
  masked.
\<close>

definition zip_bands :: "('a \<Rightarrow> 'a \<Rightarrow> 'a) \<Rightarrow> 'a image \<Rightarrow> 'a image \<Rightarrow> 'a image" where
  "zip_bands f x y =
     x\<lparr>bands := map (\<lambda>((n, a), (m, b)).
          (n, \<lambda>p. case (a p, b p) of (Some u, Some v) \<Rightarrow> Some (f u v) | _ \<Rightarrow> None))
        (zip (bands x) (bands y))\<rparr>"

definition And_img :: "dn image \<Rightarrow> dn image \<Rightarrow> dn image" where
  "And_img x y = zip_bands (\<lambda>u v. if u \<noteq> 0 \<and> v \<noteq> 0 then 1 else 0) x y"

definition Or_img :: "dn image \<Rightarrow> dn image \<Rightarrow> dn image" where
  "Or_img x y = zip_bands (\<lambda>u v. if u = 0 \<and> v = 0 then 0 else 1) x y"

text \<open>
  \<^verbatim>\<open>Image.updateMask(mask)\<close>: every band of the image keeps its sample where the
  (single-band) mask has a non-zero sample and is masked elsewhere, also where the mask
  itself is masked.
\<close>

definition mask_band :: "'b image \<Rightarrow> 'b band" where
  "mask_band m = (case bands m of [] \<Rightarrow> (\<lambda>p. None) | (n, b) # _ \<Rightarrow> b)"

definition updateMask :: "'a image \<Rightarrow> dn image \<Rightarrow> 'a image" where
  "updateMask img m =
     img\<lparr>bands := map (\<lambda>(n, b).
        (n, \<lambda>p. case mask_band m p of
                   None \<Rightarrow> None
                 | Some v \<Rightarrow> if v \<noteq> 0 then b p else None)) (bands img)\<rparr>"

text \<open>
  \<^verbatim>\<open>Image.divide(10000)\<close>: every sample divided by the constant; the result does
  not carry the properties of the input (which is why line 55 copies the time stamp back).
\<close>

definition divide_img :: "dn image \<Rightarrow> real \<Rightarrow> real image" where
  "divide_img img c = (map_bands (\<lambda>v. real (unat v) / c) img)\<lparr>time_start := None\<rparr>"

definition copyProperties :: "'a image \<Rightarrow> 'b image \<Rightarrow> 'a image" where
  "copyProperties dest src =
     (case time_start src of None \<Rightarrow> dest | Some t \<Rightarrow> dest\<lparr>time_start := Some t\<rparr>)"

section \<open>Cloud masking (lines 26 to 55)\<close>

definition cloud_bit_mask :: dn where
  "cloud_bit_mask = push_bit 10 1"

definition cirrus_bit_mask :: dn where
  "cirrus_bit_mask = push_bit 11 1"

definition qa_mask :: "dn image \<Rightarrow> dn image" where
  "qa_mask qa =
     And_img (eq_const (bitwiseAnd qa cloud_bit_mask) 0)
             (eq_const (bitwiseAnd qa cirrus_bit_mask) 0)"

definition mask_with_qa :: "dn image \<Rightarrow> error + dn image" where
  "mask_with_qa img =
     (case select ''QA60'' img of
        Inl e \<Rightarrow> Inl e
      | Inr qa \<Rightarrow> Inr (updateMask img (qa_mask qa)))"

definition scl_mask :: "dn image \<Rightarrow> dn image" where
  "scl_mask scl =
     Or_img (Or_img (Or_img (eq_const scl 4) (eq_const scl 5)) (eq_const scl 6))
            (eq_const scl 7)"

definition mask_with_scl :: "dn image \<Rightarrow> error + dn image" where
  "mask_with_scl img =
     (case select ''SCL'' img of
        Inl e \<Rightarrow> Inl e
      | Inr scl \<Rightarrow> Inr (updateMask img (scl_mask scl)))"

text \<open>
  \<^verbatim>\<open>ee.Algorithms.If\<close> takes both alternatives as unevaluated expressions and the
  service computes the one the condition selects: an error of the other alternative
  does not surface.
\<close>

definition mask_s2_clouds :: "dn image \<Rightarrow> error + real image" where
  "mask_s2_clouds img =
     (let has_qa60 = (''QA60'' \<in> set (bandNames img))
      in case (if has_qa60 then mask_with_qa img else mask_with_scl img) of
           Inl e \<Rightarrow> Inl e
         | Inr masked_image \<Rightarrow>
             (case select_B (divide_img masked_image 10000) of
                Inl e \<Rightarrow> Inl e
              | Inr sel \<Rightarrow> Inr (copyProperties sel img)))"

section \<open>NDVI (lines 59 to 62)\<close>

text \<open>
  Modelled from the spec: \<^verbatim>\<open>Image.normalizedDifference\<close> is an operation of the
  Earth Engine service and has no code in the repository. Its result has one band,
  named nd: \<open>(first - second) / (first + second)\<close>, masked where an input is masked or
  negative (the service's documentation), and masked where the denominator is zero
  (the specification, section 4.2). A band the image lacks is an error.
\<close>

definition nd_sample :: "real option \<Rightarrow> real option \<Rightarrow> real option" where
  "nd_sample a b =
     (case (a, b) of
        (Some x, Some y) \<Rightarrow>
          if x < 0 \<or> y < 0 then None
          else if x + y = 0 then None
          else Some ((x - y) / (x + y))
      | _ \<Rightarrow> None)"

definition normalizedDifference :: "real image \<Rightarrow> string \<Rightarrow> string \<Rightarrow> error + real image" where
  "normalizedDifference img n1 n2 =
     (case (map_of (bands img) n1, map_of (bands img) n2) of
        (Some a, Some b) \<Rightarrow>
          Inr \<lparr>bands = [(''nd'', \<lambda>p. nd_sample (a p) (b p))], time_start = None,
               footprint = footprint img, projection = projection img\<rparr>
      | _ \<Rightarrow> Inl MissingBandError)"

text \<open>\<^verbatim>\<open>Image.rename(name)\<close> on an image of one band.\<close>

definition rename :: "'a image \<Rightarrow> string \<Rightarrow> 'a image" where
  "rename img n = img\<lparr>bands := (case bands img of [] \<Rightarrow> [] | (m, b) # bs \<Rightarrow> (n, b) # bs)\<rparr>"

text \<open>
  \<^verbatim>\<open>Image.addBands(src)\<close>: the bands of src are appended; a band whose name the
  image already has is appended under the name with the suffix \<^verbatim>\<open>_1\<close>.
\<close>

definition addBands :: "'a image \<Rightarrow> 'a image \<Rightarrow> 'a image" where
  "addBands img src =
     img\<lparr>bands := bands img @
        map (\<lambda>(n, b). (if n \<in> set (bandNames img) then n @ ''_1'' else n, b)) (bands src)\<rparr>"

definition add_ndvi :: "real image \<Rightarrow> error + real image" where
  "add_ndvi img =
     (case normalizedDifference img ''B8'' ''B4'' of
        Inl e \<Rightarrow> Inl e
      | Inr nd \<Rightarrow> Inr (addBands img (rename nd ''NDVI'')))"

section \<open>Collections (lines 13 to 22 and 66 to 69)\<close>

text \<open>
  A collection is the list of its images. Mapping a failing function over a collection
  fails as a whole: the program has no handler, and the service reports the error of the
  element for the whole computation.
\<close>

fun map_coll :: "('a \<Rightarrow> error + 'b) \<Rightarrow> 'a list \<Rightarrow> error + 'b list" where
  "map_coll f [] = Inr []"
| "map_coll f (x # xs) =
     (case f x of
        Inl e \<Rightarrow> Inl e
      | Inr y \<Rightarrow> (case map_coll f xs of Inl e \<Rightarrow> Inl e | Inr ys \<Rightarrow> Inr (y # ys)))"

definition intersects :: "rect \<Rightarrow> rect \<Rightarrow> bool" where
  "intersects r s =
     (case (r, s) of ((x0, y0, x1, y1), (u0, v0, u1, v1)) \<Rightarrow>
        x0 \<le> u1 \<and> u0 \<le> x1 \<and> y0 \<le> v1 \<and> v0 \<le> y1)"

text \<open>\<^verbatim>\<open>filterBounds\<close>: the images whose footprint meets the geometry.\<close>

definition filterBounds :: "rect \<Rightarrow> 'a image list \<Rightarrow> 'a image list" where
  "filterBounds g coll =
     filter (\<lambda>i. case footprint i of None \<Rightarrow> True | Some r \<Rightarrow> intersects r g) coll"

text \<open>
  \<^verbatim>\<open>filterDate(start, end)\<close>: the images whose \<^verbatim>\<open>system:time_start\<close> is at or after
  the start and before the end (the end is exclusive).
\<close>

definition in_window :: "date \<Rightarrow> date \<Rightarrow> 'a image \<Rightarrow> bool" where
  "in_window s e i =
     (case time_start i of None \<Rightarrow> False | Some t \<Rightarrow> millis s \<le> t \<and> t < millis e)"

definition filterDate :: "date \<Rightarrow> date \<Rightarrow> 'a image list \<Rightarrow> 'a image list" where
  "filterDate s e coll = filter (in_window s e) coll"

definition aoi :: rect where
  "aoi = (48180 / 1000, 30859 / 1000, 48364 / 1000, 31080 / 1000)"

definition start_date :: date where
  "start_date = \<lparr>year = 2024, month = 3, day = 1\<rparr>"

definition end_date :: date where
  "end_date = \<lparr>year = 2024, month = 10, day = 31\<rparr>"

text \<open>The first argument stands for the archive \<^verbatim>\<open>COPERNICUS/S2_SR\<close>.\<close>

definition get_sentinel2_collection ::
  "dn image list \<Rightarrow> rect \<Rightarrow> date \<Rightarrow> date \<Rightarrow> dn image list" where
  "get_sentinel2_collection archive g s e = filterDate s e (filterBounds g archive)"

definition s2_collection :: "dn image list \<Rightarrow> dn image list" where
  "s2_collection archive = get_sentinel2_collection archive aoi start_date end_date"

definition s2_processed :: "dn image list \<Rightarrow> error + real image list" where
  "s2_processed archive =
     (case map_coll mask_s2_clouds (s2_collection archive) of
        Inl e \<Rightarrow> Inl e
      | Inr masked \<Rightarrow>
          (case map_coll add_ndvi masked of
             Inl e \<Rightarrow> Inl e
           | Inr with_ndvi \<Rightarrow> map_coll (select ''NDVI'') with_ndvi))"

section \<open>Monthly maximum value composites (lines 73 to 84)\<close>

text \<open>
  The image of a collection whose sample of the quality band at the pixel is greatest,
  among the images that have a sample there, with that sample.
\<close>

fun best_at :: "string \<Rightarrow> pixel \<Rightarrow> real image list \<Rightarrow> (real \<times> real image) option" where
  "best_at q p [] = None"
| "best_at q p (i # is) =
     (case sample q i p of
        None \<Rightarrow> best_at q p is
      | Some v \<Rightarrow>
          (case best_at q p is of
             None \<Rightarrow> Some (v, i)
           | Some (w, j) \<Rightarrow> if v < w then Some (w, j) else Some (v, i)))"

definition no_bands :: "'a image" where
  "no_bands = \<lparr>bands = [], time_start = None, footprint = None, projection = None\<rparr>"

text \<open>
  Modelled from the spec: \<^verbatim>\<open>ImageCollection.qualityMosaic\<close> is an operation of the
  Earth Engine service and has no code in the repository. Every pixel of the mosaic takes
  the samples of the image whose quality band is greatest there among the images with a
  sample there, and is masked when no image has one (the specification, section 4.3).
  The mosaic of an empty collection is not an error: it is the composite of one band, the
  quality band, that has no sample anywhere (the specification, sections 3, 4.3 and 7:
  a monthly composite has exactly one band, and the composite of a window that selects
  no image is entirely nodata).
\<close>

definition qualityMosaic :: "string \<Rightarrow> real image list \<Rightarrow> error + real image" where
  "qualityMosaic q coll =
     (case coll of
        [] \<Rightarrow> Inr (no_bands\<lparr>bands := [(q, \<lambda>p. None)]\<rparr>)
      | i # _ \<Rightarrow>
          if list_all (\<lambda>j. q \<in> set (bandNames j)) coll
          then Inr (no_bands\<lparr>bands := map (\<lambda>(n, b).
                 (n, \<lambda>p. case best_at q p coll of
                            None \<Rightarrow> None
                          | Some (w, j) \<Rightarrow> sample n j p)) (bands i)\<rparr>)
          else Inl MissingBandError)"

definition months :: "int list" where
  "months = [1..12]"

text \<open>The first argument is the global \<^verbatim>\<open>s2_processed\<close> of line 69.\<close>

definition create_monthly_mvc :: "real image list \<Rightarrow> int \<Rightarrow> error + real image" where
  "create_monthly_mvc processed m =
     (let start = advance_month start_date (m - 1);
          end' = advance_month start 1;
          monthly_collection = filterDate start end' processed
      in case qualityMosaic ''NDVI'' monthly_collection of
           Inl e \<Rightarrow> Inl e
         | Inr mvc \<Rightarrow> Inr (mvc\<lparr>time_start := Some (millis start)\<rparr>))"

definition monthly_mvc_collection :: "real image list \<Rightarrow> error + real image list" where
  "monthly_mvc_collection processed = map_coll (create_monthly_mvc processed) months"

section \<open>Annual mean (lines 88 and 89)\<close>

definition mean_at :: "string \<Rightarrow> real image list \<Rightarrow> pixel \<Rightarrow> real option" where
  "mean_at n coll p =
     (let vs = List.map_filter (\<lambda>i. sample n i p) coll
      in if vs = [] then None else Some (sum_list vs / real (length vs)))"

text \<open>
  Modelled from the spec: \<^verbatim>\<open>ImageCollection.mean\<close> is an operation of the Earth
  Engine service and has no code in the repository. Every pixel of every band is the
  arithmetic mean of the samples the images of the collection have there, and is masked
  when no image has one (the specification, section 4.4, and the service's
  documentation); bands are matched by name, and the mean of an empty collection has no
  bands.
\<close>

definition mean_coll :: "real image list \<Rightarrow> real image" where
  "mean_coll coll =
     no_bands\<lparr>bands :=
       (case coll of [] \<Rightarrow> [] | i # _ \<Rightarrow> map (\<lambda>(n, b). (n, mean_at n coll)) (bands i))\<rparr>"

text \<open>
  \<^verbatim>\<open>Image.reproject(crs, None, scale)\<close> fixes the projection in which the image is
  computed.
\<close>

definition reproject :: "'a image \<Rightarrow> string \<Rightarrow> nat \<Rightarrow> 'a image" where
  "reproject img crs scale = img\<lparr>projection := Some (crs, scale)\<rparr>"

text \<open>Lines 88 and 89, as a function of \<^verbatim>\<open>monthly_mvc_collection\<close>.\<close>

definition mean_of_composites :: "real image list \<Rightarrow> error + real image" where
  "mean_of_composites composites =
     (case map_coll (select ''NDVI'') composites of
        Inl e \<Rightarrow> Inl e
      | Inr sel \<Rightarrow> Inr (reproject (mean_coll sel) ''EPSG:4326'' 10))"

text \<open>The whole computation of \<^verbatim>\<open>mean_ndvi\<close>, as a function of the archive.\<close>

definition mean_ndvi :: "dn image list \<Rightarrow> error + real image" where
  "mean_ndvi archive =
     (case s2_processed archive of
        Inl e \<Rightarrow> Inl e
      | Inr processed \<Rightarrow>
          (case monthly_mvc_collection processed of
             Inl e \<Rightarrow> Inl e
           | Inr composites \<Rightarrow> mean_of_composites composites))"

section \<open>Example inputs\<close>

text \<open>
  Source images over the area of interest, taken on 2024-03-01 (in milliseconds:
  1709251200000). The first has the band QA60, with the cloud bit set at the pixel (0, 0)
  only, the classification 3 (cloud shadow) everywhere and no reflectance at the pixel
  (2, 2); the second has no QA60 band
  and the classification 6 at (0, 0) and 3 elsewhere; the third has neither band.
\<close>

definition img_qa :: "dn image" where
  "img_qa =
     \<lparr>bands = [(''B4'', \<lambda>p. if p = (2, 2) then Some 0 else Some 1000),
               (''B8'', \<lambda>p. if p = (2, 2) then Some 0 else Some 3000),
               (''QA60'', \<lambda>p. if p = (0, 0) then Some 1024 else Some 0),
               (''SCL'', \<lambda>p. Some 3)],
      time_start = Some 1709251200000, footprint = Some (48, 30, 49, 32),
      projection = None\<rparr>"

definition img_scl :: "dn image" where
  "img_scl =
     \<lparr>bands = [(''B4'', \<lambda>p. Some 1000), (''B8'', \<lambda>p. Some 3000),
               (''SCL'', \<lambda>p. if p = (0, 0) then Some 6 else Some 3)],
      time_start = Some 1709251200000, footprint = Some (48, 30, 49, 32),
      projection = None\<rparr>"

definition img_bare :: "dn image" where
  "img_bare =
     \<lparr>bands = [(''B4'', \<lambda>p. Some 1000), (''B8'', \<lambda>p. Some 3000)],
      time_start = Some 1709251200000, footprint = Some (48, 30, 49, 32),
      projection = None\<rparr>"





section \<open>Samples of transformed images\<close>

lemma map_of_rebuild:
  "map_of (map (\<lambda>(n, b). (n, f n b)) xs) k = map_option (f k) (map_of xs k)"
  by (induction xs) auto

lemma map_of_filter_name:
  "map_of (filter (\<lambda>(n, b). P n) xs) k = (if P k then map_of xs k else None)"
  by (induction xs) auto

lemma map_of_in_names: "(map_of xs k \<noteq> None) = (k \<in> set (map fst xs))"
  by (induction xs) auto

lemma sample_map_bands: "sample n (map_bands f img) p = map_option f (sample n img p)"
  by (simp add: sample_def map_bands_def map_of_rebuild [where f = "\<lambda>n b p. map_option f (b p)"]
      split: option.splits)

lemma sample_updateMask:
  "sample n (updateMask img m) p =
     (case mask_band m p of None \<Rightarrow> None | Some v \<Rightarrow> if v \<noteq> 0 then sample n img p else None)"
  by (simp add: sample_def updateMask_def
      map_of_rebuild [where f = "\<lambda>n b p. case mask_band m p of None \<Rightarrow> None | Some v \<Rightarrow> if v \<noteq> 0 then b p else None"]
      split: option.splits)

lemma select_Inr:
  "select n img = Inr s \<Longrightarrow> \<exists>b. map_of (bands img) n = Some b \<and> s = img\<lparr>bands := [(n, b)]\<rparr>"
  by (auto simp: select_def split: option.splits)

lemma select_Inr_name: "select n img = Inr s \<Longrightarrow> n \<in> set (bandNames img)"
  using map_of_in_names [of "bands img" n]
  by (auto simp: select_def bandNames_def split: option.splits)

lemma mask_band_qa_mask:
  "mask_band (qa_mask (img\<lparr>bands := [(n, b)]\<rparr>)) p =
     map_option (\<lambda>q. if q AND cloud_bit_mask = 0 \<and> q AND cirrus_bit_mask = 0 then 1 else 0) (b p)"
  by (cases "b p")
     (simp_all add: mask_band_def qa_mask_def And_img_def zip_bands_def eq_const_def
        bitwiseAnd_def map_bands_def)

lemma mask_band_scl_mask:
  "mask_band (scl_mask (img\<lparr>bands := [(n, b)]\<rparr>)) p =
     map_option (\<lambda>c. if c = 4 \<or> c = 5 \<or> c = 6 \<or> c = 7 then 1 else 0) (b p)"
  by (cases "b p")
     (simp_all add: mask_band_def scl_mask_def Or_img_def zip_bands_def eq_const_def
        map_bands_def)

lemma cloud_bit: "(q AND cloud_bit_mask = 0) = (\<not> bit q 10)" for q :: dn
  using and_exp_eq_0_iff_not_bit [of q 10] by (simp add: cloud_bit_mask_def)

lemma cirrus_bit: "(q AND cirrus_bit_mask = 0) = (\<not> bit q 11)" for q :: dn
  using and_exp_eq_0_iff_not_bit [of q 11] by (simp add: cirrus_bit_mask_def)

lemma sample_mask_with_qa:
  assumes "mask_with_qa img = Inr out"
  shows "sample n out p =
     (case sample ''QA60'' img p of
        None \<Rightarrow> None
      | Some q \<Rightarrow> if \<not> bit q 10 \<and> \<not> bit q 11 then sample n img p else None)"
proof -
  from assms obtain qa where qa: "select ''QA60'' img = Inr qa"
    and out: "out = updateMask img (qa_mask qa)"
    by (auto simp: mask_with_qa_def split: sum.splits)
  from select_Inr [OF qa] obtain b where b: "map_of (bands img) ''QA60'' = Some b"
    and qa_eq: "qa = img\<lparr>bands := [(''QA60'', b)]\<rparr>" by blast
  have s: "sample ''QA60'' img p = b p" by (simp add: sample_def b)
  show ?thesis
    by (cases "b p") (simp_all add: out qa_eq sample_updateMask mask_band_qa_mask s cloud_bit cirrus_bit)
qed

lemma sample_mask_with_scl:
  assumes "mask_with_scl img = Inr out"
  shows "sample n out p =
     (case sample ''SCL'' img p of
        None \<Rightarrow> None
      | Some c \<Rightarrow> if c \<in> {4, 5, 6, 7} then sample n img p else None)"
proof -
  from assms obtain scl where scl: "select ''SCL'' img = Inr scl"
    and out: "out = updateMask img (scl_mask scl)"
    by (auto simp: mask_with_scl_def split: sum.splits)
  from select_Inr [OF scl] obtain b where b: "map_of (bands img) ''SCL'' = Some b"
    and scl_eq: "scl = img\<lparr>bands := [(''SCL'', b)]\<rparr>" by blast
  have s: "sample ''SCL'' img p = b p" by (simp add: sample_def b)
  show ?thesis
    by (cases "b p") (simp_all add: out scl_eq sample_updateMask mask_band_scl_mask s)
qed

lemma bandNames_updateMask: "bandNames (updateMask img m) = bandNames img"
  by (simp add: bandNames_def updateMask_def comp_def case_prod_unfold)

lemma time_start_copyProperties: "time_start (copyProperties d s) = (case time_start s of None \<Rightarrow> time_start d | Some t \<Rightarrow> Some t)"
  by (simp add: copyProperties_def split: option.splits)

lemma bands_copyProperties: "bands (copyProperties d s) = bands d"
  by (simp add: copyProperties_def split: option.splits)

lemma sample_copyProperties: "sample n (copyProperties d s) p = sample n d p"
  by (simp add: sample_def bands_copyProperties)

lemma sample_divide_img:
  "sample n (divide_img img c) p = map_option (\<lambda>v. real (unat v) / c) (sample n img p)"
proof -
  have "sample n (divide_img img c) p = sample n (map_bands (\<lambda>v. real (unat v) / c) img) p"
    by (simp add: divide_img_def sample_def)
  then show ?thesis by (simp add: sample_map_bands)
qed

lemma select_B_Inr:
  "select_B img = Inr s \<Longrightarrow> s = img\<lparr>bands := filter (\<lambda>(n, b). matches_B n) (bands img)\<rparr>"
  by (auto simp: select_B_def Let_def split: if_splits)

lemma sample_select_B:
  "select_B img = Inr s \<Longrightarrow> sample n s p = (if matches_B n then sample n img p else None)"
  by (drule select_B_Inr) (simp add: sample_def map_of_filter_name)

lemma mask_s2_clouds_Inr:
  assumes "mask_s2_clouds img = Inr res"
  obtains masked where
    "(if ''QA60'' \<in> set (bandNames img) then mask_with_qa img else mask_with_scl img) = Inr masked"
    and "\<And>n p. sample n res p =
       (if matches_B n then map_option (\<lambda>v. real (unat v) / 10000) (sample n masked p) else None)"
    and "time_start res = time_start img"
    and "bandNames res = filter matches_B (bandNames img)"
proof -
  let ?r = "if ''QA60'' \<in> set (bandNames img) then mask_with_qa img else mask_with_scl img"
  from assms obtain masked sel where m: "?r = Inr masked"
    and sel: "select_B (divide_img masked 10000) = Inr sel"
    and res: "res = copyProperties sel img"
    by (auto simp: mask_s2_clouds_def Let_def split: sum.splits)
  have names: "bandNames masked = bandNames img"
    using m by (auto simp: mask_with_qa_def mask_with_scl_def bandNames_updateMask
        split: if_splits sum.splits)
  have s: "\<And>n p. sample n res p =
       (if matches_B n then map_option (\<lambda>v. real (unat v) / 10000) (sample n masked p) else None)"
    by (simp add: res sample_copyProperties sample_select_B [OF sel] sample_divide_img)
  have t: "time_start res = time_start img"
    using select_B_Inr [OF sel]
    by (simp add: res time_start_copyProperties divide_img_def split: option.splits)
  have "bandNames sel = filter matches_B (bandNames masked)"
    using select_B_Inr [OF sel]
    by (simp add: bandNames_def divide_img_def map_bands_def filter_map comp_def case_prod_unfold)
  moreover have "bandNames res = bandNames sel"
    by (simp add: res bandNames_def bands_copyProperties)
  ultimately have b: "bandNames res = filter matches_B (bandNames img)"
    by (simp add: names)
  from m s t b show ?thesis by (rule that)
qed



lemma time_start_add_ndvi: "add_ndvi img = Inr out \<Longrightarrow> time_start out = time_start img"
  by (auto simp: add_ndvi_def addBands_def split: sum.splits)

lemma time_start_select: "select n img = Inr out \<Longrightarrow> time_start out = time_start img"
  by (auto simp: select_def split: option.splits)

lemma sample_select: "select n img = Inr out \<Longrightarrow> sample n out p = sample n img p"
  by (auto simp: select_def sample_def split: option.splits)

lemma bands_select: "select n img = Inr out \<Longrightarrow> \<exists>b. bands out = [(n, b)]"
  by (auto simp: select_def split: option.splits)


section \<open>Claims on cloud masking\<close>

text \<open>
  Claim C6. Under the bitmask strategy a pixel is valid if and only if bit 10 (cloud) and
  bit 11 (cirrus) of the band QA60 are both zero there: every band of the result of
  \<open>mask_with_qa\<close> keeps the sample of the input where the QA60 sample has both bits
  clear, and is masked everywhere else. In particular a pixel with the cloud bit set is
  masked in every band of the output of \<open>mask_s2_clouds\<close>, whatever the classification
  band holds.
\<close>

theorem mask_with_qa_valid_iff_bits_clear:
  assumes "mask_with_qa img = Inr out"
  shows "sample n out p =
          (case sample ''QA60'' img p of
             None \<Rightarrow> None
           | Some q \<Rightarrow> if \<not> bit q 10 \<and> \<not> bit q 11 then sample n img p else None)
       \<and> (\<forall>res q. mask_s2_clouds img = Inr res \<and> sample ''QA60'' img p = Some q \<and> bit q 10
             \<longrightarrow> sample n res p = None)"
proof (intro conjI allI impI)
  show "sample n out p =
          (case sample ''QA60'' img p of
             None \<Rightarrow> None
           | Some q \<Rightarrow> if \<not> bit q 10 \<and> \<not> bit q 11 then sample n img p else None)"
    using assms by (rule sample_mask_with_qa)
next
  fix res q
  assume h: "mask_s2_clouds img = Inr res \<and> sample ''QA60'' img p = Some q \<and> bit q 10"
  have qa: "''QA60'' \<in> set (bandNames img)"
    using assms by (auto simp: mask_with_qa_def split: sum.splits dest: select_Inr_name)
  from h obtain masked where
    m: "(if ''QA60'' \<in> set (bandNames img) then mask_with_qa img else mask_with_scl img)
          = Inr masked"
    and s: "\<And>n p. sample n res p =
       (if matches_B n then map_option (\<lambda>v. real (unat v) / 10000) (sample n masked p)
        else None)"
    by (auto elim: mask_s2_clouds_Inr)
  from m qa have "mask_with_qa img = Inr masked" by simp
  then have "sample n masked p = None"
    using h by (simp add: sample_mask_with_qa)
  then show "sample n res p = None" by (simp add: s)
qed

theorem mask_with_qa_valid_iff_bits_clear_witness:
  "\<exists>out. mask_with_qa img_qa = Inr out
     \<and> sample ''B4'' out (0, 0) = None \<and> sample ''B4'' out (1, 1) = Some 1000
     \<and> (\<forall>res. mask_s2_clouds img_qa = Inr res \<longrightarrow> sample ''B8'' res (0, 0) = None)"
proof -
  obtain out where out: "mask_with_qa img_qa = Inr out"
    by (simp add: mask_with_qa_def select_def img_qa_def)
  have q0: "sample ''QA60'' img_qa (0, 0) = Some 1024"
    and q1: "sample ''QA60'' img_qa (1, 1) = Some 0"
    and b1: "sample ''B4'' img_qa (1, 1) = Some 1000"
    by (simp_all add: sample_def img_qa_def)
  have c: "bit (1024 :: dn) 10"
    using bit_exp_iff [where ?'a = dn, of 10 10] by simp
  have "sample ''B4'' out (0, 0) = None"
    using mask_with_qa_valid_iff_bits_clear [OF out, of "''B4''" "(0, 0)"] q0 c by simp
  moreover have "sample ''B4'' out (1, 1) = Some 1000"
    using mask_with_qa_valid_iff_bits_clear [OF out, of "''B4''" "(1, 1)"] q1 b1 by simp
  moreover have "\<forall>res. mask_s2_clouds img_qa = Inr res \<longrightarrow> sample ''B8'' res (0, 0) = None"
    using mask_with_qa_valid_iff_bits_clear [OF out, of "''B8''" "(0, 0)"] q0 c by blast
  ultimately show ?thesis using out by blast
qed

text \<open>
  Claim C7. Under the classification strategy a pixel is valid if and only if its value
  in the band SCL is one of 4, 5, 6 and 7: every band of the result of
  \<open>mask_with_scl\<close> keeps the sample of the input where the SCL sample is in that set,
  and is masked everywhere else. In particular, for an image without the band QA60, a
  pixel of classification 6 keeps its (scaled) sample in every retained band of the
  output of \<open>mask_s2_clouds\<close>.
\<close>

theorem mask_with_scl_valid_iff_class:
  assumes "mask_with_scl img = Inr out"
  shows "sample n out p =
          (case sample ''SCL'' img p of
             None \<Rightarrow> None
           | Some c \<Rightarrow> if c \<in> {4, 5, 6, 7} then sample n img p else None)
       \<and> (\<forall>res. ''QA60'' \<notin> set (bandNames img) \<and> mask_s2_clouds img = Inr res
                  \<and> sample ''SCL'' img p = Some 6 \<and> matches_B n
             \<longrightarrow> sample n res p = map_option (\<lambda>v. real (unat v) / 10000) (sample n img p))"
proof (intro conjI allI impI)
  show "sample n out p =
          (case sample ''SCL'' img p of
             None \<Rightarrow> None
           | Some c \<Rightarrow> if c \<in> {4, 5, 6, 7} then sample n img p else None)"
    using assms by (rule sample_mask_with_scl)
next
  fix res
  assume h: "''QA60'' \<notin> set (bandNames img) \<and> mask_s2_clouds img = Inr res
               \<and> sample ''SCL'' img p = Some 6 \<and> matches_B n"
  then obtain masked where
    m: "(if ''QA60'' \<in> set (bandNames img) then mask_with_qa img else mask_with_scl img)
          = Inr masked"
    and s: "\<And>n p. sample n res p =
       (if matches_B n then map_option (\<lambda>v. real (unat v) / 10000) (sample n masked p)
        else None)"
    by (auto elim: mask_s2_clouds_Inr)
  from m h have "mask_with_scl img = Inr masked" by simp
  then have "sample n masked p = sample n img p"
    using h by (simp add: sample_mask_with_scl)
  then show "sample n res p = map_option (\<lambda>v. real (unat v) / 10000) (sample n img p)"
    using h by (simp add: s)
qed

theorem mask_with_scl_valid_iff_class_witness:
  "\<exists>out. mask_with_scl img_scl = Inr out
     \<and> sample ''B4'' out (0, 0) = Some 1000 \<and> sample ''B4'' out (1, 1) = None
     \<and> (\<exists>res. mask_s2_clouds img_scl = Inr res \<and> sample ''B8'' res (0, 0) = Some (3 / 10))"
proof -
  obtain out where out: "mask_with_scl img_scl = Inr out"
    by (simp add: mask_with_scl_def select_def img_scl_def)
  obtain res where res: "mask_s2_clouds img_scl = Inr res"
    by (simp add: mask_s2_clouds_def mask_with_scl_def select_def select_B_def
        divide_img_def map_bands_def updateMask_def matches_B_def bandNames_def img_scl_def)
  have c0: "sample ''SCL'' img_scl (0, 0) = Some 6"
    and c1: "sample ''SCL'' img_scl (1, 1) = Some 3"
    and b0: "sample ''B4'' img_scl (0, 0) = Some 1000"
    and b8: "sample ''B8'' img_scl (0, 0) = Some 3000"
    and nq: "''QA60'' \<notin> set (bandNames img_scl)"
    and mb: "matches_B ''B8''"
    by (simp_all add: sample_def bandNames_def matches_B_def img_scl_def)
  have "sample ''B4'' out (0, 0) = Some 1000"
    using mask_with_scl_valid_iff_class [OF out, of "''B4''" "(0, 0)"] c0 b0 by simp
  moreover have "sample ''B4'' out (1, 1) = None"
    using mask_with_scl_valid_iff_class [OF out, of "''B4''" "(1, 1)"] c1 by simp
  moreover have "sample ''B8'' res (0, 0) = Some (3 / 10)"
    using mask_with_scl_valid_iff_class [OF out, of "''B8''" "(0, 0)"] c0 b8 nq mb res
    by simp
  ultimately show ?thesis using out res by blast
qed

text \<open>
  Claim C4. Every image is masked by exactly one of the two strategies, and which one
  depends on nothing but the presence of the band QA60: where the band is present the
  samples of the output of \<open>mask_s2_clouds\<close> are those the bit mask alone lets through,
  whatever the classification band holds (and whether or not the image has one); where
  it is absent they are those the classification alone lets through. The samples that
  pass are the digital numbers divided by 10000, in the bands whose names start with B.
\<close>

theorem mask_s2_clouds_one_strategy:
  assumes "mask_s2_clouds img = Inr res"
  shows "sample n res p =
     (if matches_B n then
        (if ''QA60'' \<in> set (bandNames img)
         then (case sample ''QA60'' img p of
                 None \<Rightarrow> None
               | Some q \<Rightarrow>
                   if \<not> bit q 10 \<and> \<not> bit q 11
                   then map_option (\<lambda>v. real (unat v) / 10000) (sample n img p) else None)
         else (case sample ''SCL'' img p of
                 None \<Rightarrow> None
               | Some c \<Rightarrow>
                   if c \<in> {4, 5, 6, 7}
                   then map_option (\<lambda>v. real (unat v) / 10000) (sample n img p) else None))
      else None)"
proof -
  from assms obtain masked where
    m: "(if ''QA60'' \<in> set (bandNames img) then mask_with_qa img else mask_with_scl img)
          = Inr masked"
    and s: "\<And>n p. sample n res p =
       (if matches_B n then map_option (\<lambda>v. real (unat v) / 10000) (sample n masked p)
        else None)"
    by (auto elim: mask_s2_clouds_Inr)
  show ?thesis
  proof (cases "''QA60'' \<in> set (bandNames img)")
    case True
    with m have "mask_with_qa img = Inr masked" by simp
    then show ?thesis
      using True by (simp add: s sample_mask_with_qa split: option.splits)
  next
    case False
    with m have "mask_with_scl img = Inr masked" by simp
    then show ?thesis
      using False by (simp add: s sample_mask_with_scl split: option.splits)
  qed
qed

theorem mask_s2_clouds_one_strategy_witness:
  "(\<exists>res. mask_s2_clouds img_qa = Inr res
      \<and> sample ''B4'' res (0, 0) = None \<and> sample ''B4'' res (1, 1) = Some (1 / 10))
   \<and> (\<exists>res. mask_s2_clouds img_scl = Inr res
      \<and> sample ''B4'' res (0, 0) = Some (1 / 10) \<and> sample ''B4'' res (1, 1) = None)"
proof -
  obtain r1 where r1: "mask_s2_clouds img_qa = Inr r1"
    by (simp add: mask_s2_clouds_def mask_with_qa_def select_def select_B_def
        divide_img_def map_bands_def updateMask_def matches_B_def bandNames_def img_qa_def)
  obtain r2 where r2: "mask_s2_clouds img_scl = Inr r2"
    by (simp add: mask_s2_clouds_def mask_with_scl_def select_def select_B_def
        divide_img_def map_bands_def updateMask_def matches_B_def bandNames_def img_scl_def)
  have c: "bit (1024 :: dn) 10"
    using bit_exp_iff [where ?'a = dn, of 10 10] by simp
  have q: "''QA60'' \<in> set (bandNames img_qa)" "matches_B ''B4''"
    "sample ''QA60'' img_qa (0, 0) = Some 1024" "sample ''QA60'' img_qa (1, 1) = Some 0"
    "sample ''B4'' img_qa (1, 1) = Some 1000"
    by (simp_all add: sample_def bandNames_def matches_B_def img_qa_def)
  have k: "''QA60'' \<notin> set (bandNames img_scl)"
    "sample ''SCL'' img_scl (0, 0) = Some 6" "sample ''SCL'' img_scl (1, 1) = Some 3"
    "sample ''B4'' img_scl (0, 0) = Some 1000"
    by (simp_all add: sample_def bandNames_def img_scl_def)
  have "sample ''B4'' r1 (0, 0) = None"
    using mask_s2_clouds_one_strategy [OF r1, of "''B4''" "(0, 0)"] q c by simp
  moreover have "sample ''B4'' r1 (1, 1) = Some (1 / 10)"
    using mask_s2_clouds_one_strategy [OF r1, of "''B4''" "(1, 1)"] q by simp
  moreover have "sample ''B4'' r2 (0, 0) = Some (1 / 10)"
    using mask_s2_clouds_one_strategy [OF r2, of "''B4''" "(0, 0)"] q(2) k by simp
  moreover have "sample ''B4'' r2 (1, 1) = None"
    using mask_s2_clouds_one_strategy [OF r2, of "''B4''" "(1, 1)"] q(2) k by simp
  ultimately show ?thesis using r1 r2 by blast
qed

section \<open>Claim on the index\<close>



section \<open>Monthly composites\<close>








section \<open>Annual mean\<close>

lemma map_coll_Inr:
  "map_coll f xs = Inr ys \<Longrightarrow> list_all2 (\<lambda>x y. f x = Inr y) xs ys"
  by (induction xs arbitrary: ys) (auto split: sum.splits)

lemma map_coll_Inl:
  "x \<in> set xs \<Longrightarrow> f x = Inl e \<Longrightarrow> \<exists>e'. map_coll f xs = Inl e'"
  by (induction xs) (auto split: sum.splits)

lemma samples_select_coll:
  "list_all2 (\<lambda>x y. select n x = Inr y) xs ys \<Longrightarrow>
     List.map_filter (\<lambda>i. sample n i p) ys = List.map_filter (\<lambda>i. sample n i p) xs"
  by (induction rule: list_all2_induct) (auto simp: sample_select split: option.splits)

lemma sample_mean_coll:
  assumes "list_all2 (\<lambda>x y. select n x = Inr y) xs ys"
  shows "sample n (mean_coll ys) p = mean_at n ys p"
proof (cases ys)
  case Nil
  then show ?thesis
    by (simp add: mean_coll_def no_bands_def sample_def mean_at_def)
next
  case (Cons y rest)
  with assms obtain x where "select n x = Inr y"
    by (auto simp: list_all2_Cons2)
  then obtain b where "bands y = [(n, b)]"
    using bands_select by blast
  with Cons show ?thesis
    by (simp add: mean_coll_def no_bands_def sample_def)
qed



section \<open>Time stamps and windows of the processed collection\<close>

lemma only_error: "e = MissingBandError"
  by (cases e) simp

lemma time_start_mask_s2_clouds:
  "mask_s2_clouds img = Inr res \<Longrightarrow> time_start res = time_start img"
  by (erule mask_s2_clouds_Inr)

lemma map_coll_times:
  assumes "list_all2 (\<lambda>x y. f x = Inr y) xs ys"
    and "\<And>x y. f x = Inr y \<Longrightarrow> time_start y = time_start x"
  shows "map time_start ys = map time_start xs"
  using assms by (induction rule: list_all2_induct) auto

lemma list_all2_pick:
  "list_all2 P xs ys \<Longrightarrow> x \<in> set xs \<Longrightarrow> \<exists>y \<in> set ys. P x y"
  by (induction rule: list_all2_induct) auto

lemma map_coll_total:
  "(\<And>x. x \<in> set xs \<Longrightarrow> \<exists>y. f x = Inr y) \<Longrightarrow>
     \<exists>ys. map_coll f xs = Inr ys \<and> length ys = length xs"
proof (induction xs)
  case Nil
  then show ?case by simp
next
  case (Cons x xs)
  then obtain y ys where "f x = Inr y" "map_coll f xs = Inr ys" "length ys = length xs"
    by (metis list.set_intros(1) list.set_intros(2))
  then show ?case by simp
qed

lemma s2_processed_Inr:
  assumes "s2_processed archive = Inr processed"
  shows "map time_start processed = map time_start (s2_collection archive)"
    and "\<And>i. i \<in> set processed \<Longrightarrow> ''NDVI'' \<in> set (bandNames i)"
proof -
  from assms obtain masked with_ndvi where
    a: "map_coll mask_s2_clouds (s2_collection archive) = Inr masked"
    and b: "map_coll add_ndvi masked = Inr with_ndvi"
    and c: "map_coll (select ''NDVI'') with_ndvi = Inr processed"
    by (auto simp: s2_processed_def split: sum.splits)
  have "map time_start masked = map time_start (s2_collection archive)"
    using map_coll_Inr [OF a] time_start_mask_s2_clouds by (rule map_coll_times)
  moreover have "map time_start with_ndvi = map time_start masked"
    using map_coll_Inr [OF b] time_start_add_ndvi by (rule map_coll_times)
  moreover have "map time_start processed = map time_start with_ndvi"
    using map_coll_Inr [OF c] time_start_select by (rule map_coll_times)
  ultimately show "map time_start processed = map time_start (s2_collection archive)"
    by simp
  fix i
  assume "i \<in> set processed"
  then obtain x where "select ''NDVI'' x = Inr i"
    using map_coll_Inr [OF c] by (auto simp: in_set_conv_nth list_all2_conv_all_nth)
  then show "''NDVI'' \<in> set (bandNames i)"
    by (auto simp: bandNames_def dest: bands_select)
qed

lemma filterDate_by_times:
  "map time_start xs = map time_start ys \<Longrightarrow>
     (filterDate s e xs = []) = (filterDate s e ys = [])"
proof -
  assume h: "map time_start xs = map time_start ys"
  have "(filterDate s e zs = []) =
          (\<forall>t \<in> set (map time_start zs).
             case t of None \<Rightarrow> True | Some u \<Rightarrow> \<not> (millis s \<le> u \<and> u < millis e))"
    for zs :: "'c image list"
    by (auto simp: filterDate_def in_window_def filter_empty_conv split: option.splits)
  then show ?thesis using h by metis
qed

lemma millis_end_date: "millis end_date = 1730332800000"
  by (simp add: end_date_def millis_def days_from_civil_def)

lemma late_starts:
  "millis (advance_month start_date 8) = 1730419200000"
  "millis (advance_month start_date 9) = 1733011200000"
  "millis (advance_month start_date 10) = 1735689600000"
  "millis (advance_month start_date 11) = 1738368000000"
  by (simp_all add: advance_month_def start_date_def millis_def days_from_civil_def
      days_in_month_def)

lemma late_window_start:
  "m \<in> {9..12} \<Longrightarrow> millis end_date \<le> millis (advance_month start_date (m - 1))"
proof -
  assume "m \<in> {9..12}"
  then have "m = 9 \<or> m = 10 \<or> m = 11 \<or> m = 12" by auto
  then show ?thesis
    by (auto simp: millis_end_date late_starts)
qed

lemma late_window_raw:
  assumes "m \<in> {9..12}"
  shows "filterDate (advance_month start_date (m - 1)) e (s2_collection archive) = []"
proof -
  have "\<not> in_window (advance_month start_date (m - 1)) e i"
    if "i \<in> set (s2_collection archive)" for i
  proof -
    from that have "in_window start_date end_date i"
      by (simp add: s2_collection_def get_sentinel2_collection_def filterDate_def)
    then show ?thesis
      using late_window_start [OF assms]
      by (auto simp: in_window_def split: option.splits)
  qed
  then show ?thesis by (simp add: filterDate_def filter_empty_conv)
qed

lemma late_window_processed:
  assumes "m \<in> {9..12}" and "s2_processed archive = Inr processed"
  shows "filterDate (advance_month start_date (m - 1)) e processed = []"
  using filterDate_by_times [OF s2_processed_Inr(1) [OF assms(2)]] late_window_raw [OF assms(1)]
  by simp

lemma late_composite:
  assumes "m \<in> {9..12}" and "s2_processed archive = Inr processed"
  shows "create_monthly_mvc processed m =
           Inr (no_bands\<lparr>bands := [(''NDVI'', \<lambda>p. None)],
                  time_start := Some (millis (advance_month start_date (m - 1)))\<rparr>)"
  by (simp add: create_monthly_mvc_def Let_def late_window_processed [OF assms]
      qualityMosaic_def)

lemma s2_collection_of_examples:
  "s2_collection [img_qa] = [img_qa]"
  "s2_collection [img_qa, img_bare] = [img_qa, img_bare]"
  by (simp_all add: s2_collection_def get_sentinel2_collection_def filterDate_def
      filterBounds_def in_window_def intersects_def aoi_def img_qa_def img_bare_def
      start_date_def end_date_def millis_def days_from_civil_def)

lemma s2_processed_img_qa: "\<exists>i. s2_processed [img_qa] = Inr [i]"
proof -
  obtain m where m: "mask_s2_clouds img_qa = Inr m"
    by (simp add: mask_s2_clouds_def mask_with_qa_def select_def select_B_def
        divide_img_def map_bands_def updateMask_def matches_B_def bandNames_def img_qa_def)
  have "bandNames m = [''B4'', ''B8'']"
    using mask_s2_clouds_Inr [OF m] by (auto simp: bandNames_def matches_B_def img_qa_def)
  then have names: "map fst (bands m) = [''B4'', ''B8'']"
    by (simp add: bandNames_def)
  then obtain b4 b8 where bs: "bands m = [(''B4'', b4), (''B8'', b8)]"
    by (cases "bands m") (auto simp: map_eq_Cons_conv)
  then obtain n where n: "add_ndvi m = Inr n"
    and "map_of (bands n) ''NDVI'' \<noteq> None"
    by (simp add: add_ndvi_def normalizedDifference_def addBands_def rename_def
        bandNames_def)
  then obtain i where "select ''NDVI'' n = Inr i"
    by (auto simp: select_def)
  with m n show ?thesis
    by (simp add: s2_processed_def s2_collection_of_examples)
qed

section \<open>Claims on the windows of the configured dates\<close>

text \<open>
  Claim C9. The collection is filtered to the dates from 2024-03-01 to 2024-10-31, and
  the window of the month index m starts m - 1 months after 2024-03-01. Whatever the
  archive holds, the windows of the indices 9 to 12 (which start on 2024-11-01 and later)
  select no image, neither of the filtered collection nor of the processed one, and
  their composites are the mosaic of an empty collection: the band NDVI without a sample
  anywhere.
\<close>

theorem late_windows_select_nothing:
  assumes "m \<in> {9..12}"
  shows "filterDate (advance_month start_date (m - 1))
           (advance_month (advance_month start_date (m - 1)) 1) (s2_collection archive) = []
       \<and> (\<forall>processed. s2_processed archive = Inr processed \<longrightarrow>
            filterDate (advance_month start_date (m - 1))
              (advance_month (advance_month start_date (m - 1)) 1) processed = []
            \<and> create_monthly_mvc processed m =
                Inr (no_bands\<lparr>bands := [(''NDVI'', \<lambda>p. None)],
                       time_start :=
                         Some (millis (advance_month start_date (m - 1)))\<rparr>))"
  using late_window_raw [OF assms] late_window_processed [OF assms] late_composite [OF assms]
  by blast

theorem late_windows_select_nothing_witness:
  "\<exists>processed mvc. s2_processed [img_qa] = Inr processed \<and> processed \<noteq> []
     \<and> filterDate (advance_month start_date 8)
          (advance_month (advance_month start_date 8) 1) processed = []
     \<and> create_monthly_mvc processed 9 = Inr mvc \<and> bandNames mvc = [''NDVI'']
     \<and> sample ''NDVI'' mvc (1, 1) = None"
proof -
  obtain i where p: "s2_processed [img_qa] = Inr [i]"
    using s2_processed_img_qa by blast
  have m: "(9 :: int) \<in> {9..12}" by simp
  define mvc :: "real image"
    where "mvc = no_bands\<lparr>bands := [(''NDVI'', \<lambda>p. None)],
                   time_start := Some (millis (advance_month start_date 8))\<rparr>"
  from late_windows_select_nothing [OF m, of "[img_qa]"] p
  have "filterDate (advance_month start_date 8)
          (advance_month (advance_month start_date 8) 1) [i] = []"
    and "create_monthly_mvc [i] 9 = Inr mvc"
    by (simp_all add: mvc_def)
  moreover have "bandNames mvc = [''NDVI'']" "sample ''NDVI'' mvc (1, 1) = None"
    by (simp_all add: mvc_def no_bands_def bandNames_def sample_def)
  ultimately show ?thesis using p by blast
qed

lemma composites_exist:
  assumes "s2_processed archive = Inr processed"
  shows "\<exists>composites. monthly_mvc_collection processed = Inr composites
           \<and> length composites = 12"
proof -
  have h: "\<exists>c. create_monthly_mvc processed m = Inr c" for m
  proof -
    define sel where "sel = filterDate (advance_month start_date (m - 1))
                  (advance_month (advance_month start_date (m - 1)) 1) processed"
    have all: "list_all (\<lambda>j. ''NDVI'' \<in> set (bandNames j)) sel"
      using s2_processed_Inr(2) [OF assms] by (simp add: sel_def list_all_iff filterDate_def)
    have "\<exists>r. qualityMosaic ''NDVI'' sel = Inr r"
    proof (cases sel)
      case Nil
      then show ?thesis by (simp add: qualityMosaic_def)
    next
      case (Cons i rest)
      with all show ?thesis by (simp add: qualityMosaic_def)
    qed
    then obtain r where "qualityMosaic ''NDVI'' sel = Inr r" ..
    then show ?thesis
      by (simp add: create_monthly_mvc_def Let_def sel_def [symmetric])
  qed
  have "\<exists>ys. map_coll (create_monthly_mvc processed) months = Inr ys
               \<and> length ys = length months"
    by (rule map_coll_total) (rule h)
  moreover have "length months = 12"
    by (simp add: months_def)
  ultimately show ?thesis
    by (simp add: monthly_mvc_collection_def)
qed

lemma list_all2_pick2:
  "list_all2 P xs ys \<Longrightarrow> y \<in> set ys \<Longrightarrow> \<exists>x \<in> set xs. P x y"
  by (induction rule: list_all2_induct) auto

lemma create_monthly_mvc_has_ndvi:
  assumes "create_monthly_mvc processed m = Inr c"
  shows "''NDVI'' \<in> set (bandNames c)"
proof -
  define sel where "sel = filterDate (advance_month start_date (m - 1))
                (advance_month (advance_month start_date (m - 1)) 1) processed"
  from assms obtain r where r: "qualityMosaic ''NDVI'' sel = Inr r"
    and c: "bands c = bands r"
    by (auto simp: create_monthly_mvc_def Let_def sel_def split: sum.splits)
  have "''NDVI'' \<in> set (bandNames r)"
  proof (cases sel)
    case Nil
    with r show ?thesis
      by (auto simp: qualityMosaic_def no_bands_def bandNames_def)
  next
    case (Cons i rest)
    with r have "''NDVI'' \<in> set (bandNames i)"
      and "bandNames r = bandNames i"
      by (auto simp: qualityMosaic_def no_bands_def bandNames_def comp_def case_prod_unfold
          split: if_splits)
    then show ?thesis by simp
  qed
  with c show ?thesis by (simp add: bandNames_def)
qed

lemma select_total: "n \<in> set (bandNames c) \<Longrightarrow> \<exists>s. select n c = Inr s"
  using map_of_in_names [of "bands c" n]
  by (auto simp: select_def bandNames_def split: option.splits)

lemma mean_of_composites_total:
  assumes "\<And>c. c \<in> set composites \<Longrightarrow> \<exists>s. select ''NDVI'' c = Inr s"
  shows "\<exists>out. mean_of_composites composites = Inr out"
proof -
  have "\<exists>ys. map_coll (select ''NDVI'') composites = Inr ys
               \<and> length ys = length composites"
    by (rule map_coll_total) (rule assms)
  then show ?thesis
    by (auto simp: mean_of_composites_def)
qed

lemma mean_ndvi_succeeds:
  assumes "s2_processed archive = Inr processed"
  shows "\<exists>out. mean_ndvi archive = Inr out"
proof -
  from composites_exist [OF assms] obtain composites
    where comps: "monthly_mvc_collection processed = Inr composites" by blast
  have all: "list_all2 (\<lambda>m c. create_monthly_mvc processed m = Inr c) months composites"
    using comps unfolding monthly_mvc_collection_def by (rule map_coll_Inr)
  have "\<exists>s. select ''NDVI'' c = Inr s" if "c \<in> set composites" for c
  proof -
    from list_all2_pick2 [OF all that]
    obtain m where "create_monthly_mvc processed m = Inr c" by auto
    then show ?thesis
      by (intro select_total create_monthly_mvc_has_ndvi)
  qed
  then have "\<exists>out. mean_of_composites composites = Inr out"
    by (rule mean_of_composites_total)
  with assms comps show ?thesis by (simp add: mean_ndvi_def)
qed

lemma mean_of_composites_sample:
  assumes "mean_of_composites composites = Inr out"
  shows "sample ''NDVI'' out p = mean_at ''NDVI'' composites p"
proof -
  from assms obtain sel where sel: "map_coll (select ''NDVI'') composites = Inr sel"
    and out: "out = reproject (mean_coll sel) ''EPSG:4326'' 10"
    by (auto simp: mean_of_composites_def split: sum.splits)
  note all = map_coll_Inr [OF sel]
  have "sample ''NDVI'' out p = sample ''NDVI'' (mean_coll sel) p"
    by (simp add: out reproject_def sample_def)
  also have "\<dots> = mean_at ''NDVI'' sel p"
    using all by (rule sample_mean_coll)
  also have "\<dots> = mean_at ''NDVI'' composites p"
    by (simp add: mean_at_def samples_select_coll [OF all])
  finally show ?thesis .
qed

lemma mean_at_skips_nodata:
  assumes "sample n c p = None"
  shows "mean_at n (before @ c # after) p = mean_at n (before @ after) p"
  using assms by (simp add: mean_at_def map_filter_def)

text \<open>
  Claim C3. A monthly window that selects no image does not make the compositing fail:
  \<open>create_monthly_mvc\<close> returns a composite whose band NDVI has no sample at any
  pixel. That composite goes into the annual mean silently: wherever it stands among
  the composites, the annual mean is computed as without it, with the same sample at
  every pixel. For the configured dates, in which such windows always occur, the whole
  computation of \<open>mean_ndvi\<close> succeeds whenever the processing of the collection does.
\<close>

theorem empty_window_composite_is_nodata:
  assumes "filterDate (advance_month start_date (m - 1))
             (advance_month (advance_month start_date (m - 1)) 1) processed = []"
  shows "\<exists>mvc. create_monthly_mvc processed m = Inr mvc
           \<and> (\<forall>p. sample ''NDVI'' mvc p = None)
           \<and> (\<forall>before after out. mean_of_composites (before @ after) = Inr out \<longrightarrow>
                (\<exists>out'. mean_of_composites (before @ mvc # after) = Inr out'
                   \<and> (\<forall>p. sample ''NDVI'' out' p = sample ''NDVI'' out p)))
           \<and> (\<forall>archive. s2_processed archive = Inr processed \<longrightarrow>
                (\<exists>out. mean_ndvi archive = Inr out))"
proof -
  define mvc :: "real image"
    where "mvc = no_bands\<lparr>bands := [(''NDVI'', \<lambda>p. None)],
                   time_start := Some (millis (advance_month start_date (m - 1)))\<rparr>"
  have c: "create_monthly_mvc processed m = Inr mvc"
    by (simp add: create_monthly_mvc_def Let_def assms qualityMosaic_def mvc_def)
  have n: "sample ''NDVI'' mvc p = None" for p
    by (simp add: mvc_def no_bands_def sample_def)
  have s: "\<exists>s. select ''NDVI'' mvc = Inr s"
    by (simp add: mvc_def no_bands_def select_def)
  have k: "\<exists>out'. mean_of_composites (before @ mvc # after) = Inr out'
             \<and> (\<forall>p. sample ''NDVI'' out' p = sample ''NDVI'' out p)"
    if h: "mean_of_composites (before @ after) = Inr out" for before after out
  proof -
    from h obtain sel where sel: "map_coll (select ''NDVI'') (before @ after) = Inr sel"
      by (auto simp: mean_of_composites_def split: sum.splits)
    have "\<exists>s. select ''NDVI'' x = Inr s" if "x \<in> set (before @ mvc # after)" for x
    proof (cases "x = mvc")
      case True
      with s show ?thesis by simp
    next
      case False
      with that have "x \<in> set (before @ after)" by auto
      from list_all2_pick [OF map_coll_Inr [OF sel] this] show ?thesis by auto
    qed
    then obtain out' where o: "mean_of_composites (before @ mvc # after) = Inr out'"
      using mean_of_composites_total by blast
    have "sample ''NDVI'' out' p = sample ''NDVI'' out p" for p
      by (simp add: mean_of_composites_sample [OF o] mean_of_composites_sample [OF h]
          mean_at_skips_nodata [OF n])
    with o show ?thesis by blast
  qed
  from c n k mean_ndvi_succeeds show ?thesis by blast
qed

theorem empty_window_composite_is_nodata_witness:
  "\<exists>processed mvc out. s2_processed [img_qa] = Inr processed
     \<and> filterDate (advance_month start_date 8)
          (advance_month (advance_month start_date 8) 1) processed = []
     \<and> create_monthly_mvc processed 9 = Inr mvc \<and> sample ''NDVI'' mvc (1, 1) = None
     \<and> mean_ndvi [img_qa] = Inr out"
proof -
  obtain i where p: "s2_processed [img_qa] = Inr [i]"
    using s2_processed_img_qa by blast
  have late: "(9 :: int) \<in> {9..12}" by simp
  have w: "filterDate (advance_month start_date (9 - 1))
             (advance_month (advance_month start_date (9 - 1)) 1) [i] = []"
    using late p by (rule late_window_processed)
  from empty_window_composite_is_nodata [OF w]
  obtain mvc where a: "create_monthly_mvc [i] 9 = Inr mvc"
    and b: "\<forall>p. sample ''NDVI'' mvc p = None"
    and c: "\<forall>archive. s2_processed archive = Inr [i] \<longrightarrow> (\<exists>out. mean_ndvi archive = Inr out)"
    by blast
  from c p obtain out where o: "mean_ndvi [img_qa] = Inr out" by blast
  from w have "filterDate (advance_month start_date 8)
                 (advance_month (advance_month start_date 8) 1) [i] = []" by simp
  with p a b o show ?thesis by blast
qed

section \<open>Claim on missing bands\<close>

lemma mask_s2_clouds_no_band:
  assumes "''QA60'' \<notin> set (bandNames img)" and "''SCL'' \<notin> set (bandNames img)"
  shows "mask_s2_clouds img = Inl MissingBandError"
proof -
  have "map_of (bands img) ''SCL'' = None"
    using assms(2) map_of_in_names [of "bands img" "''SCL''"] by (simp add: bandNames_def)
  then show ?thesis
    using assms(1) by (simp add: mask_s2_clouds_def mask_with_scl_def select_def)
qed

text \<open>
  Claim C8, as stated, fails: the collection of the two images \<open>img_qa\<close> and
  \<open>img_bare\<close>, of which the second has neither the band QA60 nor the band SCL, is not
  processed as the collection of \<open>img_qa\<close> alone. The image is not dropped; the
  processing of the whole collection fails.
\<close>

theorem missing_band_image_not_dropped:
  "mask_s2_clouds img_bare = Inl MissingBandError
   \<and> s2_processed [img_qa, img_bare] = Inl MissingBandError
   \<and> (\<exists>i. s2_processed [img_qa] = Inr [i])"
proof -
  have b: "mask_s2_clouds img_bare = Inl MissingBandError"
    by (rule mask_s2_clouds_no_band) (simp_all add: bandNames_def img_bare_def)
  have "img_bare \<in> set (s2_collection [img_qa, img_bare])"
    by (simp add: s2_collection_of_examples)
  from map_coll_Inl [where f = mask_s2_clouds, OF this b]
  obtain e where "map_coll mask_s2_clouds (s2_collection [img_qa, img_bare]) = Inl e" ..
  then have "s2_processed [img_qa, img_bare] = Inl MissingBandError"
    by (simp add: s2_processed_def only_error [of e])
  with b s2_processed_img_qa show ?thesis by blast
qed

text \<open>
  Claim C8, amended. If an image of the filtered collection has neither the band QA60
  nor the band SCL, so that the band of the strategy selected for it (the
  classification) is absent, then the masking of that image fails with
  \<open>MissingBandError\<close>, and so does the processing of the whole collection: no image is
  dropped and no processed collection is produced.
\<close>

theorem missing_band_fails_collection:
  assumes "img \<in> set (s2_collection archive)"
    and "''QA60'' \<notin> set (bandNames img)" and "''SCL'' \<notin> set (bandNames img)"
  shows "mask_s2_clouds img = Inl MissingBandError
       \<and> s2_processed archive = Inl MissingBandError"
proof -
  have b: "mask_s2_clouds img = Inl MissingBandError"
    using assms(2,3) by (rule mask_s2_clouds_no_band)
  from map_coll_Inl [where f = mask_s2_clouds, OF assms(1) b]
  obtain e where "map_coll mask_s2_clouds (s2_collection archive) = Inl e" ..
  then have "s2_processed archive = Inl MissingBandError"
    by (simp add: s2_processed_def only_error [of e])
  with b show ?thesis by simp
qed

theorem missing_band_fails_collection_witness:
  "img_bare \<in> set (s2_collection [img_qa, img_bare])
   \<and> ''QA60'' \<notin> set (bandNames img_bare) \<and> ''SCL'' \<notin> set (bandNames img_bare)
   \<and> mask_s2_clouds img_bare = Inl MissingBandError
   \<and> s2_processed [img_qa, img_bare] = Inl MissingBandError"
proof -
  have a: "img_bare \<in> set (s2_collection [img_qa, img_bare])"
    by (simp add: s2_collection_of_examples)
  have b: "''QA60'' \<notin> set (bandNames img_bare)" and c: "''SCL'' \<notin> set (bandNames img_bare)"
    by (simp_all add: bandNames_def img_bare_def)
  show ?thesis
    using missing_band_fails_collection [OF a b c] a b c by simp
qed

end
